theory Spec2Isabelle
  imports Main
begin

section \<open>Values, errors and the outside world\<close>

text \<open>
  Shallow embedding of the credential and dispatch layer of \<^verbatim>\<open>src/index.ts\<close>
  (class \<^verbatim>\<open>ZohoProjectsServer\<close>): \<^verbatim>\<open>refreshAccessToken\<close>, \<^verbatim>\<open>makeRequest\<close>,
  \<^verbatim>\<open>downloadInlineImage\<close>, \<^verbatim>\<open>processImageResponse\<close>, the constructor and
  \<^verbatim>\<open>listTasklists\<close>.

  A JavaScript string is a \<open>string\<close>; its characters stand for the code units of the
  source string. JSON numbers are opaque to the code modelled here except for being zero
  (falsy) or not, so they are integers.
\<close>

datatype json =
  JNull
  | JBool bool
  | JNum int
  | JStr string
  | JArr "json list"
  | JObj "(string \<times> json) list"

text \<open>The two members of the SDK's \<^verbatim>\<open>ErrorCode\<close> enumeration that the modelled code uses.\<close>

datatype ErrorCode = InvalidRequest | InternalError

text \<open>A native JavaScript \<^verbatim>\<open>Error\<close> object: its \<^verbatim>\<open>name\<close> and its \<^verbatim>\<open>message\<close>.\<close>

datatype js_exn = JsExn string string

text \<open>What the code can throw: \<^verbatim>\<open>new McpError(code, message)\<close>, or a native error.\<close>

datatype thrown = McpError ErrorCode string | Native js_exn

text \<open>\<^verbatim>\<open>`${error}`\<close> on a native error is \<^verbatim>\<open>Error.prototype.toString\<close>.\<close>

fun exn_string :: "js_exn \<Rightarrow> string" where
  "exn_string (JsExn n m) = (if n = [] then m else if m = [] then n else n @ '': '' @ m)"

text \<open>\<^verbatim>\<open>`${n}`\<close> on a number that is an integer: its decimal digits.\<close>

definition digit_char :: "nat \<Rightarrow> char" where
  "digit_char d = ''0123456789'' ! d"

fun show_nat :: "nat \<Rightarrow> string" where
  "show_nat n = (if n < 10 then [digit_char n] else show_nat (n div 10) @ [digit_char (n mod 10)])"

declare show_nat.simps [simp del]

definition show_int :: "int \<Rightarrow> string" where
  "show_int i = (if i < 0 then CHR ''-'' # show_nat (nat (- i)) else show_nat (nat i))"

text \<open>
  A \<^verbatim>\<open>Response\<close>. The body is given by the views the code takes of it:
  \<^verbatim>\<open>text()\<close>, \<^verbatim>\<open>json()\<close> (which rejects when the body is not JSON),
  \<^verbatim>\<open>arrayBuffer()\<close>, and the \<^verbatim>\<open>content-type\<close> header. The type of the parsed
  body is the one the call site gives it: \<^verbatim>\<open>any\<close> for a resource endpoint, and
  \<^verbatim>\<open>{access_token: string; expires_in: number}\<close> for the token endpoint.
\<close>

record 'j response =
  resp_status :: nat
  resp_text :: string
  resp_json :: "js_exn + 'j"
  resp_content_type :: "string option"
  resp_bytes :: "nat list"

definition resp_ok :: "'j response \<Rightarrow> bool" where
  "resp_ok r = (200 \<le> resp_status r \<and> resp_status r \<le> 299)"

record token_data =
  access_token :: string
  expires_in :: int

text \<open>The promise returned by \<^verbatim>\<open>fetch\<close> either rejects or resolves to a response.\<close>

datatype 'j fetch_outcome = Rejects js_exn | Responds "'j response"

datatype req_body = FormBody "(string \<times> string) list" | JsonBody json

record request =
  req_url :: string
  req_method :: string
  req_headers :: "(string \<times> string) list"
  req_body :: "req_body option"

text \<open>
  What the process does that can be observed from outside, in order: a request sent to
  the identity provider's token endpoint, a request sent to the resource API, a line
  written by \<^verbatim>\<open>console.error\<close>.
\<close>

datatype event =
  TokenFetch request
  | ApiFetch request
  | ConsoleError string
  | ConsoleErrorObj string thrown

record ZohoConfig =
  accessToken :: string
  portalId :: string
  apiDomain :: string
  refreshToken :: string
  clientId :: string
  clientSecret :: string
  accountsDomain :: string

text \<open>
  The fields of the server object, and the world around it: the clock read by
  \<^verbatim>\<open>Date.now()\<close> (milliseconds), what the identity provider and the resource API
  will answer to the requests still to come (each answer with the milliseconds that pass
  until it arrives), and the trace of events so far. An exhausted script is an endpoint
  that cannot be reached.
\<close>

record state =
  config :: ZohoConfig
  baseUrl :: string
  tokenExpiresAt :: int
  clock :: int
  accounts_script :: "(nat \<times> token_data fetch_outcome) list"
  api_script :: "(nat \<times> json fetch_outcome) list"
  trace :: "event list"

definition fetch_failed :: js_exn where
  "fetch_failed = JsExn ''TypeError'' ''fetch failed''"

definition console_error :: "string \<Rightarrow> state \<Rightarrow> state" where
  "console_error msg s = s\<lparr>trace := trace s @ [ConsoleError msg]\<rparr>"

definition console_error_obj :: "string \<Rightarrow> thrown \<Rightarrow> state \<Rightarrow> state" where
  "console_error_obj msg e s = s\<lparr>trace := trace s @ [ConsoleErrorObj msg e]\<rparr>"

definition fetch_accounts :: "request \<Rightarrow> state \<Rightarrow> token_data fetch_outcome \<times> state" where
  "fetch_accounts rq s =
     (case accounts_script s of
        [] \<Rightarrow> (Rejects fetch_failed, s\<lparr>trace := trace s @ [TokenFetch rq]\<rparr>)
      | (d, out) # rest \<Rightarrow>
          (out, s\<lparr>clock := clock s + int d, accounts_script := rest,
                  trace := trace s @ [TokenFetch rq]\<rparr>))"

definition fetch_api :: "request \<Rightarrow> state \<Rightarrow> json fetch_outcome \<times> state" where
  "fetch_api rq s =
     (case api_script s of
        [] \<Rightarrow> (Rejects fetch_failed, s\<lparr>trace := trace s @ [ApiFetch rq]\<rparr>)
      | (d, out) # rest \<Rightarrow>
          (out, s\<lparr>clock := clock s + int d, api_script := rest,
                  trace := trace s @ [ApiFetch rq]\<rparr>))"

section \<open>The token refresher\<close>

text \<open>
  The test \<^verbatim>\<open>this.config.refreshToken && this.config.clientId && this.config.clientSecret\<close>:
  the constructor sets each of the three to a string, which is falsy when empty.
\<close>

definition has_refresh_credentials :: "ZohoConfig \<Rightarrow> bool" where
  "has_refresh_credentials c =
     (refreshToken c \<noteq> [] \<and> clientId c \<noteq> [] \<and> clientSecret c \<noteq> [])"

definition token_request :: "ZohoConfig \<Rightarrow> request" where
  "token_request c =
     \<lparr>req_url = accountsDomain c @ ''/oauth/v2/token'',
      req_method = ''POST'',
      req_headers = [(''Content-Type'', ''application/x-www-form-urlencoded'')],
      req_body = Some (FormBody
        [(''refresh_token'', refreshToken c),
         (''client_id'', clientId c),
         (''client_secret'', clientSecret c),
         (''grant_type'', ''refresh_token'')])\<rparr>"

text \<open>The \<^verbatim>\<open>try\<close> block of \<^verbatim>\<open>refreshAccessToken\<close>.\<close>

definition refresh_try :: "state \<Rightarrow> (js_exn + unit) \<times> state" where
  "refresh_try s =
     (case fetch_accounts (token_request (config s)) s of
        (Rejects e, s1) \<Rightarrow> (Inl e, s1)
      | (Responds r, s1) \<Rightarrow>
          if \<not> resp_ok r then
            (Inl (JsExn ''Error'' (''Failed to refresh token: '' @ show_nat (resp_status r)
                                   @ '' - '' @ resp_text r)), s1)
          else
            (case resp_json r of
               Inl e \<Rightarrow> (Inl e, s1)
             | Inr data \<Rightarrow>
                 (Inr (),
                  console_error (''Access token refreshed successfully. Expires in ''
                                 @ show_int (expires_in data) @ '' seconds.'')
                    (s1\<lparr>config := (config s1)\<lparr>accessToken := access_token data\<rparr>,
                        tokenExpiresAt := clock s1 + (expires_in data - 300) * 1000\<rparr>))))"

definition refreshAccessToken :: "state \<Rightarrow> (thrown + unit) \<times> state" where
  "refreshAccessToken s =
     (if \<not> has_refresh_credentials (config s) then
        (Inr (), console_error
           ''Cannot refresh token: missing refresh token, client ID, or client secret'' s)
      else
        (case refresh_try s of
           (Inr u, s1) \<Rightarrow> (Inr u, s1)
         | (Inl e, s1) \<Rightarrow>
             (Inl (McpError InternalError (''Failed to refresh access token: '' @ exn_string e)),
              console_error (''Error refreshing access token: '' @ exn_string e) s1)))"

section \<open>The authenticated request dispatcher\<close>

text \<open>JavaScript truthiness of a parsed JSON value.\<close>

fun truthy :: "json \<Rightarrow> bool" where
  "truthy JNull = False"
| "truthy (JBool b) = b"
| "truthy (JNum n) = (n \<noteq> 0)"
| "truthy (JStr s) = (s \<noteq> [])"
| "truthy (JArr xs) = True"
| "truthy (JObj kvs) = True"

definition auth_header :: "ZohoConfig \<Rightarrow> string" where
  "auth_header c = ''Zoho-oauthtoken '' @ accessToken c"

text \<open>
  The request \<^verbatim>\<open>makeRequest\<close> builds; the body field holds the value that
  \<^verbatim>\<open>JSON.stringify\<close> serialises.
\<close>

definition api_request :: "state \<Rightarrow> string \<Rightarrow> string \<Rightarrow> json option \<Rightarrow> request" where
  "api_request s endpoint method body =
     \<lparr>req_url = baseUrl s @ endpoint,
      req_method = method,
      req_headers = [(''Authorization'', auth_header (config s)),
                     (''Content-Type'', ''application/json'')],
      req_body =
        (case body of
           None \<Rightarrow> None
         | Some b \<Rightarrow>
             if truthy b \<and> (method = ''POST'' \<or> method = ''PATCH'' \<or> method = ''PUT'')
             then Some (JsonBody b) else None)\<rparr>"

definition api_error :: "json response \<Rightarrow> thrown" where
  "api_error r =
     McpError InternalError
       (''Zoho API error: '' @ show_nat (resp_status r) @ '' - '' @ resp_text r)"

definition missing_token_error :: thrown where
  "missing_token_error =
     McpError InvalidRequest
       ''Zoho access token not configured. Set ZOHO_ACCESS_TOKEN environment variable.''"

text \<open>
  The first statement of \<^verbatim>\<open>makeRequest\<close> and of \<^verbatim>\<open>downloadInlineImage\<close>:
  \<^verbatim>\<open>if (Date.now() >= this.tokenExpiresAt) await this.refreshAccessToken()\<close>.
\<close>

definition ensure_fresh :: "state \<Rightarrow> (thrown + unit) \<times> state" where
  "ensure_fresh s = (if clock s \<ge> tokenExpiresAt s then refreshAccessToken s else (Inr (), s))"

text \<open>
  \<^verbatim>\<open>makeRequest(endpoint, method, body, isRetry)\<close>. After a 401 answer the refresh
  and the recursive call both sit in one \<^verbatim>\<open>try\<close> block; its \<^verbatim>\<open>catch\<close> logs
  whatever either of them has thrown and falls through to the \<^verbatim>\<open>throw\<close> of the
  error of the first answer. A rejected \<^verbatim>\<open>fetch\<close> or \<^verbatim>\<open>json()\<close> is not
  caught and leaves the function as it is.
\<close>

function makeRequest ::
  "string \<Rightarrow> string \<Rightarrow> json option \<Rightarrow> bool \<Rightarrow> state \<Rightarrow> (thrown + json) \<times> state" where
  "makeRequest endpoint method body isRetry s =
     (case ensure_fresh s of
        (Inl e, s1) \<Rightarrow> (Inl e, s1)
      | (Inr u, s1) \<Rightarrow>
          if accessToken (config s1) = [] then (Inl missing_token_error, s1)
          else
            (case fetch_api (api_request s1 endpoint method body) s1 of
               (Rejects e, s2) \<Rightarrow> (Inl (Native e), s2)
             | (Responds r, s2) \<Rightarrow>
                 if \<not> resp_ok r then
                   (if resp_status r = 401 \<and> \<not> isRetry \<and> has_refresh_credentials (config s2) then
                      (case refreshAccessToken
                              (console_error ''Received 401 error, attempting token refresh...'' s2) of
                         (Inl refreshError, s3) \<Rightarrow>
                           (Inl (api_error r),
                            console_error_obj ''Token refresh failed:'' refreshError s3)
                       | (Inr u', s3) \<Rightarrow>
                           (case makeRequest endpoint method body True s3 of
                              (Inl refreshError, s4) \<Rightarrow>
                                (Inl (api_error r),
                                 console_error_obj ''Token refresh failed:'' refreshError s4)
                            | (Inr v, s4) \<Rightarrow> (Inr v, s4)))
                    else (Inl (api_error r), s2))
                 else
                   (case resp_json r of
                      Inl e \<Rightarrow> (Inl (Native e), s2)
                    | Inr v \<Rightarrow> (Inr v, s2))))"
  by pat_completeness auto
termination
  by (relation "measure (\<lambda>(endpoint, method, body, isRetry, s). if isRetry then 0 else 1)") auto

declare makeRequest.simps [simp del]

text \<open>The requests of a trace that went to the resource API, and to the token endpoint.\<close>

fun api_requests :: "event list \<Rightarrow> request list" where
  "api_requests [] = []"
| "api_requests (ApiFetch rq # es) = rq # api_requests es"
| "api_requests (e # es) = api_requests es"

fun token_requests :: "event list \<Rightarrow> request list" where
  "token_requests [] = []"
| "token_requests (TokenFetch rq # es) = rq # token_requests es"
| "token_requests (e # es) = token_requests es"

text \<open>The value of the \<^verbatim>\<open>Authorization\<close> header of a request.\<close>

definition authorization :: "request \<Rightarrow> string option" where
  "authorization rq = map_of (req_headers rq) ''Authorization''"

section \<open>The binary fetch helper\<close>

text \<open>
  \<^verbatim>\<open>String.prototype.includes\<close>, and \<^verbatim>\<open>String.prototype.replace\<close> with a string
  pattern and a replacement without \<^verbatim>\<open>$\<close>: the first occurrence is replaced.
\<close>

fun starts_with :: "string \<Rightarrow> string \<Rightarrow> bool" where
  "starts_with s [] = True"
| "starts_with [] (p # ps) = False"
| "starts_with (c # cs) (p # ps) = (c = p \<and> starts_with cs ps)"

fun str_includes :: "string \<Rightarrow> string \<Rightarrow> bool" where
  "str_includes [] pat = (pat = [])"
| "str_includes (c # cs) pat = (starts_with (c # cs) pat \<or> str_includes cs pat)"

fun replace_first :: "string \<Rightarrow> string \<Rightarrow> string \<Rightarrow> string" where
  "replace_first [] pat rep = (if pat = [] then rep else [])"
| "replace_first (c # cs) pat rep =
     (if starts_with (c # cs) pat then rep @ drop (length pat) (c # cs)
      else c # replace_first cs pat rep)"

text \<open>
  The image content \<^verbatim>\<open>processImageResponse\<close> returns. The source encodes the bytes
  of the body in base64; the model keeps the bytes.
\<close>

record image_content =
  img_data :: "nat list"
  img_mimeType :: string

definition processImageResponse :: "json response \<Rightarrow> image_content" where
  "processImageResponse r =
     (let contentType =
            (case resp_content_type r of
               None \<Rightarrow> ''image/png''
             | Some c \<Rightarrow> if c = [] then ''image/png'' else c);
          mediaType =
            (if str_includes contentType ''jpeg'' \<or> str_includes contentType ''jpg'' then ''image/jpeg''
             else if str_includes contentType ''gif'' then ''image/gif''
             else if str_includes contentType ''webp'' then ''image/webp''
             else ''image/png'')
      in \<lparr>img_data = resp_bytes r, img_mimeType = mediaType\<rparr>)"

definition image_request :: "state \<Rightarrow> string \<Rightarrow> request" where
  "image_request s apiUrl =
     \<lparr>req_url = apiUrl,
      req_method = ''GET'',
      req_headers = [(''Authorization'', auth_header (config s))],
      req_body = None\<rparr>"

definition image_error :: "json response \<Rightarrow> thrown" where
  "image_error r =
     McpError InternalError
       (''Failed to download image: '' @ show_nat (resp_status r) @ '' - '' @ resp_text r)"

definition image_retry_error :: "json response \<Rightarrow> thrown" where
  "image_retry_error r =
     McpError InternalError
       (''Failed to download image after token refresh: '' @ show_nat (resp_status r))"

text \<open>The \<^verbatim>\<open>try\<close> block of \<^verbatim>\<open>downloadInlineImage\<close>.\<close>

definition download_try :: "string \<Rightarrow> state \<Rightarrow> (thrown + image_content) \<times> state" where
  "download_try apiUrl s =
     (case fetch_api (image_request s apiUrl) s of
        (Rejects e, s1) \<Rightarrow> (Inl (Native e), s1)
      | (Responds r, s1) \<Rightarrow>
          if \<not> resp_ok r then
            (if resp_status r = 401 \<and> refreshToken (config s1) \<noteq> [] then
               (case refreshAccessToken s1 of
                  (Inl e, s2) \<Rightarrow> (Inl e, s2)
                | (Inr u, s2) \<Rightarrow>
                    (case fetch_api (image_request s2 apiUrl) s2 of
                       (Rejects e, s3) \<Rightarrow> (Inl (Native e), s3)
                     | (Responds retryResponse, s3) \<Rightarrow>
                         if \<not> resp_ok retryResponse
                         then (Inl (image_retry_error retryResponse), s3)
                         else (Inr (processImageResponse retryResponse), s3)))
             else (Inl (image_error r), s1))
          else (Inr (processImageResponse r), s1))"

text \<open>Its \<^verbatim>\<open>catch\<close> block: an \<^verbatim>\<open>McpError\<close> is thrown again, anything else is wrapped.\<close>

fun download_catch :: "thrown \<Rightarrow> thrown" where
  "download_catch (McpError c m) = McpError c m"
| "download_catch (Native e) =
     McpError InternalError (''Error downloading inline image: '' @ exn_string e)"

text \<open>The address \<^verbatim>\<open>apiUrl\<close> that is fetched in place of \<^verbatim>\<open>imageUrl\<close>.\<close>

definition image_api_url :: "string \<Rightarrow> string" where
  "image_api_url imageUrl =
     (if str_includes imageUrl ''/viewInlineAttachment/''
      then replace_first imageUrl ''/viewInlineAttachment/'' ''/viewInlineAttachmentForApi/''
      else imageUrl)"

definition downloadInlineImage :: "string \<Rightarrow> state \<Rightarrow> (thrown + image_content) \<times> state" where
  "downloadInlineImage imageUrl s =
     (case ensure_fresh s of
        (Inl e, s1) \<Rightarrow> (Inl e, s1)
      | (Inr u, s1) \<Rightarrow>
          if accessToken (config s1) = [] then
            (Inl (McpError InvalidRequest ''Zoho access token not configured.''), s1)
          else
            (case download_try (image_api_url imageUrl) s1 of
               (Inl e, s2) \<Rightarrow> (Inl (download_catch e), s2)
             | (Inr v, s2) \<Rightarrow> (Inr v, s2)))"

section \<open>The constructor\<close>

text \<open>\<^verbatim>\<open>process.env.K || d\<close>: an unset or empty variable gives the default.\<close>

definition env_or :: "(string \<Rightarrow> string option) \<Rightarrow> string \<Rightarrow> string \<Rightarrow> string" where
  "env_or env k d = (case env k of None \<Rightarrow> d | Some v \<Rightarrow> if v = [] then d else v)"

text \<open>
  The credential state the constructor leaves, from the environment variables and the
  reading of \<^verbatim>\<open>Date.now()\<close>; the rest of the arguments is the world the server
  starts in.
\<close>

definition constructor ::
  "(string \<Rightarrow> string option) \<Rightarrow> int \<Rightarrow> (nat \<times> token_data fetch_outcome) list
     \<Rightarrow> (nat \<times> json fetch_outcome) list \<Rightarrow> state" where
  "constructor env now idp api =
     (let cfg = \<lparr>accessToken = env_or env ''ZOHO_ACCESS_TOKEN'' [],
                 portalId = env_or env ''ZOHO_PORTAL_ID'' [],
                 apiDomain = env_or env ''ZOHO_API_DOMAIN'' ''https://projectsapi.zoho.com'',
                 refreshToken = env_or env ''ZOHO_REFRESH_TOKEN'' [],
                 clientId = env_or env ''ZOHO_CLIENT_ID'' [],
                 clientSecret = env_or env ''ZOHO_CLIENT_SECRET'' [],
                 accountsDomain = env_or env ''ZOHO_ACCOUNTS_DOMAIN'' ''https://accounts.zoho.com''\<rparr>
      in \<lparr>config = cfg,
          baseUrl = (if apiDomain cfg \<noteq> [] then apiDomain cfg @ ''/api/v3''
                     else ''https://projectsapi.zoho.com/api/v3''),
          tokenExpiresAt = (if accessToken cfg \<noteq> [] then now + 3600 * 1000 else 0),
          clock = now,
          accounts_script = idp,
          api_script = api,
          trace = []\<rparr>)"

section \<open>Task lists\<close>












section \<open>Notions used in the statements\<close>

text \<open>
  The next call of the token endpoint fails: the endpoint cannot be reached, the request
  is rejected by the network, the status is not 2xx, or the body is not JSON.
\<close>

definition token_call_fails :: "state \<Rightarrow> bool" where
  "token_call_fails s =
     (case accounts_script s of
        [] \<Rightarrow> True
      | (d, Rejects e) # rest \<Rightarrow> True
      | (d, Responds r) # rest \<Rightarrow> \<not> resp_ok r \<or> isl (resp_json r))"

text \<open>The requests a run has added to those of the trace it started from.\<close>

definition new_api_requests :: "state \<Rightarrow> state \<Rightarrow> request list" where
  "new_api_requests s s' = drop (length (api_requests (trace s))) (api_requests (trace s'))"

definition new_token_requests :: "state \<Rightarrow> state \<Rightarrow> request list" where
  "new_token_requests s s' = drop (length (token_requests (trace s))) (token_requests (trace s'))"




section \<open>Example values\<close>

definition example_config :: "string \<Rightarrow> ZohoConfig" where
  "example_config tok =
     \<lparr>accessToken = tok, portalId = ''4711'',
      apiDomain = ''https://projectsapi.zoho.com'',
      refreshToken = ''1000.refresh'', clientId = ''1000.client'', clientSecret = ''secret'',
      accountsDomain = ''https://accounts.zoho.com''\<rparr>"

definition example_state ::
  "ZohoConfig \<Rightarrow> int \<Rightarrow> int \<Rightarrow> (nat \<times> token_data fetch_outcome) list
     \<Rightarrow> (nat \<times> json fetch_outcome) list \<Rightarrow> state" where
  "example_state cfg expires now idp api =
     \<lparr>config = cfg, baseUrl = ''https://projectsapi.zoho.com/api/v3'',
      tokenExpiresAt = expires, clock = now,
      accounts_script = idp, api_script = api, trace = []\<rparr>"

definition token_granted :: "string \<Rightarrow> int \<Rightarrow> token_data response" where
  "token_granted tok secs =
     \<lparr>resp_status = 200, resp_text = ''(token)'',
      resp_json = Inr \<lparr>access_token = tok, expires_in = secs\<rparr>,
      resp_content_type = Some ''application/json'', resp_bytes = []\<rparr>"

definition token_refused :: "nat \<Rightarrow> string \<Rightarrow> token_data response" where
  "token_refused st body =
     \<lparr>resp_status = st, resp_text = body,
      resp_json = Inl (JsExn ''SyntaxError'' ''Unexpected token''),
      resp_content_type = Some ''text/plain'', resp_bytes = []\<rparr>"

definition api_refused :: "nat \<Rightarrow> string \<Rightarrow> json response" where
  "api_refused st body =
     \<lparr>resp_status = st, resp_text = body,
      resp_json = Inl (JsExn ''SyntaxError'' ''Unexpected token''),
      resp_content_type = Some ''text/plain'', resp_bytes = []\<rparr>"

definition api_answers :: "json \<Rightarrow> json response" where
  "api_answers v =
     \<lparr>resp_status = 200, resp_text = ''(json)'', resp_json = Inr v,
      resp_content_type = Some ''application/json'', resp_bytes = []\<rparr>"


section \<open>Basic facts\<close>

lemma show_nat_401: "show_nat 401 = ''401''"
  by (simp add: show_nat.simps digit_char_def)

lemma api_requests_append: "api_requests (xs @ ys) = api_requests xs @ api_requests ys"
  by (induction xs rule: api_requests.induct) simp_all

lemma token_requests_append: "token_requests (xs @ ys) = token_requests xs @ token_requests ys"
  by (induction xs rule: token_requests.induct) simp_all

lemma new_api_requests_eq:
  "api_requests (trace s') = api_requests (trace s) @ xs \<Longrightarrow> new_api_requests s s' = xs"
  by (simp add: new_api_requests_def)

lemma new_token_requests_eq:
  "token_requests (trace s') = token_requests (trace s) @ xs \<Longrightarrow> new_token_requests s s' = xs"
  by (simp add: new_token_requests_def)

lemma fetch_api_frame:
  assumes "fetch_api rq s = (out, s')"
  shows "config s' = config s" and "baseUrl s' = baseUrl s"
    and "tokenExpiresAt s' = tokenExpiresAt s" and "accounts_script s' = accounts_script s"
    and "trace s' = trace s @ [ApiFetch rq]" and "clock s \<le> clock s'"
  using assms by (auto simp: fetch_api_def split: list.splits prod.splits)

lemma fetch_accounts_frame:
  assumes "fetch_accounts rq s = (out, s')"
  shows "config s' = config s" and "baseUrl s' = baseUrl s"
    and "tokenExpiresAt s' = tokenExpiresAt s" and "api_script s' = api_script s"
    and "trace s' = trace s @ [TokenFetch rq]" and "clock s \<le> clock s'"
  using assms by (auto simp: fetch_accounts_def split: list.splits prod.splits)

lemma authorization_api_request:
  "authorization (api_request s ep m b) = Some (''Zoho-oauthtoken '' @ accessToken (config s))"
  by (simp add: authorization_def api_request_def auth_header_def)

section \<open>Facts about the token refresher\<close>

lemma refresh_try_frame:
  assumes "refresh_try s = (res, s')"
  shows "baseUrl s' = baseUrl s" and "api_script s' = api_script s"
    and "api_requests (trace s') = api_requests (trace s)"
    and "token_requests (trace s') = token_requests (trace s) @ [token_request (config s)]"
    and "refreshToken (config s') = refreshToken (config s)"
    and "clientId (config s') = clientId (config s)"
    and "clientSecret (config s') = clientSecret (config s)"
  using assms
  by (auto simp: refresh_try_def console_error_def api_requests_append token_requests_append
      split: prod.splits fetch_outcome.splits if_splits sum.splits
      dest: fetch_accounts_frame)

lemma refresh_try_failure:
  assumes "refresh_try s = (Inl e, s')"
  shows "config s' = config s" and "tokenExpiresAt s' = tokenExpiresAt s"
  using assms
  by (auto simp: refresh_try_def console_error_def
      split: prod.splits fetch_outcome.splits if_splits sum.splits
      dest: fetch_accounts_frame)

lemma refreshAccessToken_frame:
  assumes "refreshAccessToken s = (res, s')"
  shows "baseUrl s' = baseUrl s" and "api_script s' = api_script s"
    and "api_requests (trace s') = api_requests (trace s)"
    and "has_refresh_credentials (config s') = has_refresh_credentials (config s)"
    and "refreshToken (config s') = refreshToken (config s)"
  using assms
  by (auto simp: refreshAccessToken_def console_error_def api_requests_append
      has_refresh_credentials_def
      split: prod.splits if_splits sum.splits dest: refresh_try_frame)

lemma refreshAccessToken_no_credentials:
  assumes "\<not> has_refresh_credentials (config s)"
  shows "refreshAccessToken s =
    (Inr (), console_error
       ''Cannot refresh token: missing refresh token, client ID, or client secret'' s)"
  using assms by (simp add: refreshAccessToken_def)

lemma refreshAccessToken_success:
  assumes "has_refresh_credentials (config s)"
    and "accounts_script s = (d, Responds r) # rest"
    and "resp_ok r" and "resp_json r = Inr data"
  shows "refreshAccessToken s =
    (Inr (),
     s\<lparr>config := (config s)\<lparr>accessToken := access_token data\<rparr>,
       tokenExpiresAt := clock s + int d + (expires_in data - 300) * 1000,
       clock := clock s + int d,
       accounts_script := rest,
       trace := trace s @ [TokenFetch (token_request (config s)),
         ConsoleError (''Access token refreshed successfully. Expires in ''
                       @ show_int (expires_in data) @ '' seconds.'')]\<rparr>)"
  using assms
  by (simp add: refreshAccessToken_def refresh_try_def fetch_accounts_def console_error_def)

lemma refresh_try_fails:
  assumes "token_call_fails s"
  shows "\<exists>e s1. refresh_try s = (Inl e, s1)"
proof (cases "accounts_script s")
  case Nil
  then show ?thesis by (simp add: refresh_try_def fetch_accounts_def)
next
  case (Cons a rest)
  obtain d out where a: "a = (d, out)" by (cases a)
  show ?thesis
  proof (cases out)
    case (Rejects e)
    with Cons a show ?thesis by (simp add: refresh_try_def fetch_accounts_def)
  next
    case (Responds r)
    with Cons a assms have "\<not> resp_ok r \<or> isl (resp_json r)"
      by (simp add: token_call_fails_def)
    with Cons a Responds show ?thesis
      by (auto simp: refresh_try_def fetch_accounts_def isl_def)
  qed
qed

text \<open>A refresh that is attempted and fails throws, and leaves the credential alone.\<close>

lemma refreshAccessToken_failure:
  assumes "has_refresh_credentials (config s)" and "token_call_fails s"
  obtains msg s' where
    "refreshAccessToken s =
       (Inl (McpError InternalError (''Failed to refresh access token: '' @ msg)), s')"
    and "config s' = config s" and "tokenExpiresAt s' = tokenExpiresAt s"
    and "api_script s' = api_script s" and "baseUrl s' = baseUrl s"
    and "api_requests (trace s') = api_requests (trace s)"
    and "token_requests (trace s') = token_requests (trace s) @ [token_request (config s)]"
    and "ConsoleError (''Error refreshing access token: '' @ msg) \<in> set (trace s')"
proof -
  obtain e s1 where t: "refresh_try s = (Inl e, s1)"
    using refresh_try_fails [OF assms(2)] by blast
  let ?s' = "console_error (''Error refreshing access token: '' @ exn_string e) s1"
  have "refreshAccessToken s =
       (Inl (McpError InternalError (''Failed to refresh access token: '' @ exn_string e)), ?s')"
    using assms(1) t by (simp add: refreshAccessToken_def)
  moreover have "config ?s' = config s" "tokenExpiresAt ?s' = tokenExpiresAt s"
    using refresh_try_failure [OF t] by (simp_all add: console_error_def)
  moreover have "api_script ?s' = api_script s" "baseUrl ?s' = baseUrl s"
    "api_requests (trace ?s') = api_requests (trace s)"
    "token_requests (trace ?s') = token_requests (trace s) @ [token_request (config s)]"
    using refresh_try_frame [OF t]
    by (simp_all add: console_error_def api_requests_append token_requests_append)
  moreover have "ConsoleError (''Error refreshing access token: '' @ exn_string e) \<in> set (trace ?s')"
    by (simp add: console_error_def)
  ultimately show thesis using that by blast
qed

lemma ensure_fresh_frame:
  assumes "ensure_fresh s = (res, s1)"
  shows "baseUrl s1 = baseUrl s" and "api_script s1 = api_script s"
    and "api_requests (trace s1) = api_requests (trace s)"
    and "has_refresh_credentials (config s1) = has_refresh_credentials (config s)"
    and "refreshToken (config s1) = refreshToken (config s)"
  using assms
  by (auto simp: ensure_fresh_def split: if_splits dest: refreshAccessToken_frame)

lemma ensure_fresh_no_credentials:
  assumes "\<not> has_refresh_credentials (config s)"
  shows "\<exists>s1. ensure_fresh s = (Inr (), s1) \<and> config s1 = config s \<and>
              tokenExpiresAt s1 = tokenExpiresAt s \<and>
              api_script s1 = api_script s \<and> baseUrl s1 = baseUrl s \<and>
              accounts_script s1 = accounts_script s \<and>
              api_requests (trace s1) = api_requests (trace s) \<and>
              token_requests (trace s1) = token_requests (trace s)"
proof (cases "tokenExpiresAt s \<le> clock s")
  case True
  with assms show ?thesis
    by (simp add: ensure_fresh_def refreshAccessToken_no_credentials console_error_def
        api_requests_append token_requests_append)
next
  case False
  then show ?thesis by (simp add: ensure_fresh_def)
qed

section \<open>Facts about the dispatcher\<close>

text \<open>The retry is a single attempt: with \<open>isRetry\<close> set, \<open>makeRequest\<close> does not call itself.\<close>

lemma makeRequest_retry:
  "makeRequest ep m b True s =
     (case ensure_fresh s of
        (Inl e, s1) \<Rightarrow> (Inl e, s1)
      | (Inr u, s1) \<Rightarrow>
          if accessToken (config s1) = [] then (Inl missing_token_error, s1)
          else
            (case fetch_api (api_request s1 ep m b) s1 of
               (Rejects e, s2) \<Rightarrow> (Inl (Native e), s2)
             | (Responds r, s2) \<Rightarrow>
                 if \<not> resp_ok r then (Inl (api_error r), s2)
                 else (case resp_json r of
                         Inl e \<Rightarrow> (Inl (Native e), s2)
                       | Inr v \<Rightarrow> (Inr v, s2))))"
  by (subst makeRequest.simps) (simp split: prod.splits sum.splits fetch_outcome.splits)

text \<open>The first attempt of a dispatch, up to the 401 branch.\<close>

lemma makeRequest_401:
  assumes "ensure_fresh s = (Inr u, s1)" and "accessToken (config s1) \<noteq> []"
    and "api_script s = (d, Responds r) # rest" and "resp_status r = 401"
    and "has_refresh_credentials (config s)"
  shows "makeRequest ep m b False s =
     (case refreshAccessToken
             (s1\<lparr>clock := clock s1 + int d, api_script := rest,
                 trace := trace s1 @ [ApiFetch (api_request s1 ep m b),
                   ConsoleError ''Received 401 error, attempting token refresh...'']\<rparr>) of
        (Inl refreshError, s3) \<Rightarrow>
          (Inl (api_error r), console_error_obj ''Token refresh failed:'' refreshError s3)
      | (Inr u', s3) \<Rightarrow>
          (case makeRequest ep m b True s3 of
             (Inl refreshError, s4) \<Rightarrow>
               (Inl (api_error r), console_error_obj ''Token refresh failed:'' refreshError s4)
           | (Inr v, s4) \<Rightarrow> (Inr v, s4)))"
proof -
  have "api_script s1 = api_script s" "has_refresh_credentials (config s1)"
    using ensure_fresh_frame [OF assms(1)] assms(5) by simp_all
  then show ?thesis
    using assms
    by (subst makeRequest.simps)
       (simp add: fetch_api_def resp_ok_def console_error_def)
qed

text \<open>What a single attempt (a retry) leaves behind, whatever the answer.\<close>

lemma makeRequest_retry_fresh:
  assumes "\<not> tokenExpiresAt s \<le> clock s" and "accessToken (config s) \<noteq> []"
    and "makeRequest ep m b True s = (res, s')"
  shows "trace s' = trace s @ [ApiFetch (api_request s ep m b)]"
    and "config s' = config s" and "tokenExpiresAt s' = tokenExpiresAt s"
proof -
  obtain out s2 where f: "fetch_api (api_request s ep m b) s = (out, s2)"
    by (cases "fetch_api (api_request s ep m b) s")
  have "s' = s2"
    using assms f
    by (auto simp: makeRequest_retry ensure_fresh_def
        split: fetch_outcome.splits if_splits sum.splits)
  then show "trace s' = trace s @ [ApiFetch (api_request s ep m b)]"
    and "config s' = config s" and "tokenExpiresAt s' = tokenExpiresAt s"
    using fetch_api_frame [OF f] by simp_all
qed

lemma ensure_fresh_throws:
  assumes "ensure_fresh s = (Inl e, s1)"
  shows "makeRequest ep m b isRetry s = (Inl e, s1)"
  using assms by (subst makeRequest.simps) simp

lemma ensure_fresh_empty_token:
  assumes "ensure_fresh s = (Inr u, s1)" and "accessToken (config s1) = []"
  shows "makeRequest ep m b isRetry s = (Inl missing_token_error, s1)"
  using assms by (subst makeRequest.simps) simp

text \<open>The requests a dispatch sends: at most two, each with a token that is not empty.\<close>

lemma makeRequest_retry_requests:
  assumes "makeRequest ep m b True s = (res, s')"
  shows "\<exists>xs. api_requests (trace s') = api_requests (trace s) @ xs \<and> length xs \<le> 1 \<and>
          (\<forall>rq\<in>set xs. \<exists>tok. tok \<noteq> [] \<and> authorization rq = Some (''Zoho-oauthtoken '' @ tok))"
proof -
  obtain r1 s1 where e: "ensure_fresh s = (r1, s1)" by (cases "ensure_fresh s")
  note fr = ensure_fresh_frame(3) [OF e]
  show ?thesis
  proof (cases r1)
    case (Inl err)
    with e assms have "s' = s1" by (simp add: makeRequest_retry)
    with fr show ?thesis by simp
  next
    case (Inr u)
    show ?thesis
    proof (cases "accessToken (config s1) = []")
      case True
      with e Inr assms have "s' = s1" by (simp add: makeRequest_retry)
      with fr show ?thesis by simp
    next
      case False
      obtain out s2 where f: "fetch_api (api_request s1 ep m b) s1 = (out, s2)"
        by (cases "fetch_api (api_request s1 ep m b) s1")
      have "s' = s2"
        using assms e Inr False f
        by (auto simp: makeRequest_retry split: fetch_outcome.splits if_splits sum.splits)
      then have "api_requests (trace s') = api_requests (trace s) @ [api_request s1 ep m b]"
        using fetch_api_frame(5) [OF f] fr by (simp add: api_requests_append)
      with False show ?thesis by (simp add: authorization_api_request)
    qed
  qed
qed

lemma makeRequest_requests:
  assumes "makeRequest ep m b isRetry s = (res, s')"
  shows "\<exists>xs. api_requests (trace s') = api_requests (trace s) @ xs \<and> length xs \<le> 2 \<and>
          (\<forall>rq\<in>set xs. \<exists>tok. tok \<noteq> [] \<and> authorization rq = Some (''Zoho-oauthtoken '' @ tok))"
proof (cases isRetry)
  case True
  with makeRequest_retry_requests [of ep m b s res s'] assms show ?thesis
    by (metis le_SucI one_add_one plus_1_eq_Suc)
next
  case notRetry: False
  obtain r1 s1 where e: "ensure_fresh s = (r1, s1)" by (cases "ensure_fresh s")
  note fr = ensure_fresh_frame(3) [OF e]
  show ?thesis
  proof (cases r1)
    case (Inl err)
    with e assms have "s' = s1" by (simp add: ensure_fresh_throws)
    with fr show ?thesis by simp
  next
    case (Inr u)
    show ?thesis
    proof (cases "accessToken (config s1) = []")
      case True
      with e Inr assms have "s' = s1" by (simp add: ensure_fresh_empty_token)
      with fr show ?thesis by simp
    next
      case False
      let ?rq = "api_request s1 ep m b"
      obtain out s2 where f: "fetch_api ?rq s1 = (out, s2)"
        by (cases "fetch_api ?rq s1")
      have one: "api_requests (trace s2) = api_requests (trace s) @ [?rq]"
        using fetch_api_frame(5) [OF f] fr by (simp add: api_requests_append)
      let ?s2' = "console_error ''Received 401 error, attempting token refresh...'' s2"
      obtain rr s3 where r: "refreshAccessToken ?s2' = (rr, s3)"
        by (cases "refreshAccessToken ?s2'")
      have three: "api_requests (trace s3) = api_requests (trace s) @ [?rq]"
        using refreshAccessToken_frame(3) [OF r] one
        by (simp add: console_error_def api_requests_append)
      obtain res4 s4 where m4: "makeRequest ep m b True s3 = (res4, s4)"
        by (cases "makeRequest ep m b True s3")
      obtain ys where four: "api_requests (trace s4) = api_requests (trace s3) @ ys"
        and len: "length ys \<le> 1"
        and toks: "\<forall>rq\<in>set ys. \<exists>tok. tok \<noteq> [] \<and> authorization rq = Some (''Zoho-oauthtoken '' @ tok)"
        using makeRequest_retry_requests [OF m4] by blast
      have "api_requests (trace s') = api_requests (trace s2)
          \<or> api_requests (trace s') = api_requests (trace s3)
          \<or> api_requests (trace s') = api_requests (trace s4)"
        using assms notRetry e Inr False f r m4
        by (subst (asm) makeRequest.simps)
           (auto simp: console_error_obj_def api_requests_append
              split: fetch_outcome.splits if_splits sum.splits)
      then have "api_requests (trace s') = api_requests (trace s) @ [?rq]
          \<or> api_requests (trace s') = api_requests (trace s) @ (?rq # ys)"
        using one three four by auto
      then show ?thesis
        using False len toks by (auto simp: authorization_api_request)
    qed
  qed
qed

text \<open>The requests to the token endpoint: one for each refresh that is attempted.\<close>

lemma refreshAccessToken_token_request:
  assumes "has_refresh_credentials (config s)" and "refreshAccessToken s = (res, s')"
  shows "token_requests (trace s') = token_requests (trace s) @ [token_request (config s)]"
  using assms
  by (auto simp: refreshAccessToken_def console_error_def token_requests_append
      split: prod.splits sum.splits dest: refresh_try_frame(4))

lemma refreshAccessToken_token_requests:
  assumes "refreshAccessToken s = (res, s')"
  shows "\<exists>ys. token_requests (trace s') = token_requests (trace s) @ ys \<and> length ys \<le> 1"
proof (cases "has_refresh_credentials (config s)")
  case True
  from refreshAccessToken_token_request [OF True assms] show ?thesis by simp
next
  case False
  with assms show ?thesis
    by (auto simp: refreshAccessToken_no_credentials console_error_def token_requests_append)
qed

lemma ensure_fresh_token_requests:
  assumes "ensure_fresh s = (res, s1)"
  shows "\<exists>ys. token_requests (trace s1) = token_requests (trace s) @ ys \<and> length ys \<le> 1"
proof (cases "tokenExpiresAt s \<le> clock s")
  case True
  with assms have "refreshAccessToken s = (res, s1)" by (simp add: ensure_fresh_def)
  then show ?thesis by (rule refreshAccessToken_token_requests)
next
  case False
  with assms show ?thesis by (simp add: ensure_fresh_def)
qed

lemma makeRequest_retry_token_requests:
  assumes "makeRequest ep m b True s = (res, s')"
  shows "\<exists>ys. token_requests (trace s') = token_requests (trace s) @ ys \<and> length ys \<le> 1"
proof -
  obtain r1 s1 where e: "ensure_fresh s = (r1, s1)" by (cases "ensure_fresh s")
  obtain out s2 where f: "fetch_api (api_request s1 ep m b) s1 = (out, s2)"
    by (cases "fetch_api (api_request s1 ep m b) s1")
  have "token_requests (trace s2) = token_requests (trace s1)"
    using fetch_api_frame(5) [OF f] by (simp add: token_requests_append)
  moreover have "s' = s1 \<or> s' = s2"
    using assms e f
    by (auto simp: makeRequest_retry split: sum.splits fetch_outcome.splits if_splits)
  ultimately have "token_requests (trace s') = token_requests (trace s1)" by auto
  with ensure_fresh_token_requests [OF e] show ?thesis by simp
qed

text \<open>
  The 401 branch, whatever the token endpoint answers: the first request, one refresh,
  and then at most one retry, which may refresh once more before it sends its request.
\<close>

lemma makeRequest_401_requests:
  assumes "ensure_fresh s = (Inr u, s1)" and "accessToken (config s1) \<noteq> []"
    and "api_script s = (d, Responds r) # rest" and "resp_status r = 401"
    and "has_refresh_credentials (config s)"
    and "makeRequest ep m b False s = (res, s')"
  shows "\<exists>retry more.
           api_requests (trace s') = api_requests (trace s) @ api_request s1 ep m b # retry \<and>
           length retry \<le> 1 \<and>
           token_requests (trace s') = token_requests (trace s1) @ token_request (config s1) # more \<and>
           length more \<le> 1"
proof -
  let ?s2 = "s1\<lparr>clock := clock s1 + int d, api_script := rest,
                 trace := trace s1 @ [ApiFetch (api_request s1 ep m b),
                   ConsoleError ''Received 401 error, attempting token refresh...'']\<rparr>"
  have creds: "has_refresh_credentials (config ?s2)"
    using ensure_fresh_frame(4) [OF assms(1)] assms(5) by simp
  obtain rr s3 where r: "refreshAccessToken ?s2 = (rr, s3)"
    by (cases "refreshAccessToken ?s2")
  have a3: "api_requests (trace s3) = api_requests (trace s) @ [api_request s1 ep m b]"
    using refreshAccessToken_frame(3) [OF r] ensure_fresh_frame(3) [OF assms(1)]
    by (simp add: api_requests_append)
  have t3: "token_requests (trace s3) = token_requests (trace s1) @ [token_request (config s1)]"
    using refreshAccessToken_token_request [OF creds r] by (simp add: token_requests_append)
  note unfold = makeRequest_401 [OF assms(1-5), of ep m b]
  show ?thesis
  proof (cases rr)
    case (Inl e)
    with unfold r assms(6) have "s' = console_error_obj ''Token refresh failed:'' e s3"
      by simp
    then have "api_requests (trace s') = api_requests (trace s) @ api_request s1 ep m b # []"
      and "token_requests (trace s') = token_requests (trace s1) @ token_request (config s1) # []"
      using a3 t3 by (simp_all add: console_error_obj_def api_requests_append token_requests_append)
    then show ?thesis by (metis le_numeral_extra(3) list.size(3) zero_le_one order_trans)
  next
    case (Inr u')
    obtain res4 s4 where m4: "makeRequest ep m b True s3 = (res4, s4)"
      by (cases "makeRequest ep m b True s3")
    obtain xs where a4: "api_requests (trace s4) = api_requests (trace s3) @ xs"
      and lx: "length xs \<le> 1"
      using makeRequest_retry_requests [OF m4] by blast
    obtain ys where t4: "token_requests (trace s4) = token_requests (trace s3) @ ys"
      and ly: "length ys \<le> 1"
      using makeRequest_retry_token_requests [OF m4] by blast
    have "trace s' = trace s4 \<or> (\<exists>e. trace s' = trace s4 @ [ConsoleErrorObj ''Token refresh failed:'' e])"
      using unfold r Inr m4 assms(6)
      by (auto simp: console_error_obj_def split: sum.splits)
    then have "api_requests (trace s') = api_requests (trace s4)"
      and "token_requests (trace s') = token_requests (trace s4)"
      by (auto simp: api_requests_append token_requests_append)
    then have "api_requests (trace s') = api_requests (trace s) @ api_request s1 ep m b # xs"
      and "token_requests (trace s') = token_requests (trace s1) @ token_request (config s1) # ys"
      using a3 t3 a4 t4 by simp_all
    with lx ly show ?thesis by blast
  qed
qed

text \<open>The 401 branch when the refresh succeeds with a token the retry can use.\<close>

lemma makeRequest_401_refreshed:
  assumes "ensure_fresh s = (Inr u, s1)" and "accessToken (config s1) \<noteq> []"
    and "api_script s = (d, Responds r) # rest" and "resp_status r = 401"
    and "has_refresh_credentials (config s)"
    and "accounts_script s1 = (dt, Responds rt) # rest_t"
    and "resp_ok rt" and "resp_json rt = Inr data"
    and "access_token data \<noteq> []" and "300 < expires_in data"
    and "makeRequest ep m b False s = (res, s')"
  shows "new_token_requests s1 s' = [token_request (config s1)] \<and>
         map authorization (new_api_requests s s') =
           [Some (''Zoho-oauthtoken '' @ accessToken (config s1)),
            Some (''Zoho-oauthtoken '' @ access_token data)] \<and>
         accessToken (config s') = access_token data \<and>
         length (new_api_requests s s') = 2"
proof -
  let ?s2 = "s1\<lparr>clock := clock s1 + int d, api_script := rest,
                 trace := trace s1 @ [ApiFetch (api_request s1 ep m b),
                   ConsoleError ''Received 401 error, attempting token refresh...'']\<rparr>"
  let ?s3 = "?s2\<lparr>config := (config ?s2)\<lparr>accessToken := access_token data\<rparr>,
       tokenExpiresAt := clock ?s2 + int dt + (expires_in data - 300) * 1000,
       clock := clock ?s2 + int dt,
       accounts_script := rest_t,
       trace := trace ?s2 @ [TokenFetch (token_request (config ?s2)),
         ConsoleError (''Access token refreshed successfully. Expires in ''
                       @ show_int (expires_in data) @ '' seconds.'')]\<rparr>"
  have creds: "has_refresh_credentials (config ?s2)"
    using ensure_fresh_frame(4) [OF assms(1)] assms(5) by simp
  have script: "accounts_script ?s2 = (dt, Responds rt) # rest_t"
    using assms(6) by simp
  have r: "refreshAccessToken ?s2 = (Inr (), ?s3)"
    by (rule refreshAccessToken_success [OF creds script assms(7,8)])
  obtain res4 s4 where m: "makeRequest ep m b True ?s3 = (res4, s4)"
    by (cases "makeRequest ep m b True ?s3")
  have fresh: "\<not> tokenExpiresAt ?s3 \<le> clock ?s3" using assms(10) by simp
  have tok: "accessToken (config ?s3) \<noteq> []" using assms(9) by simp
  note after = makeRequest_retry_fresh [OF fresh tok m]
  have "makeRequest ep m b False s =
      (case res4 of
         Inl refreshError \<Rightarrow>
           (Inl (api_error r), console_error_obj ''Token refresh failed:'' refreshError s4)
       | Inr v \<Rightarrow> (Inr v, s4))"
    using makeRequest_401 [OF assms(1-5), of ep m b] r m by (simp split: sum.splits)
  with assms(11) have "trace s' = trace s4 \<or> (\<exists>e. trace s' = trace s4 @ [ConsoleErrorObj ''Token refresh failed:'' e])"
    and c: "config s' = config s4"
    by (auto simp: console_error_obj_def split: sum.splits)
  then have a: "api_requests (trace s') = api_requests (trace s4)"
    and t: "token_requests (trace s') = token_requests (trace s4)"
    by (auto simp: api_requests_append token_requests_append)
  have "api_requests (trace s') =
      api_requests (trace s) @ [api_request s1 ep m b, api_request ?s3 ep m b]"
    using a after(1) ensure_fresh_frame(3) [OF assms(1)] by (simp add: api_requests_append)
  moreover have "token_requests (trace s') = token_requests (trace s1) @ [token_request (config s1)]"
    using t after(1) by (simp add: token_requests_append)
  moreover have "accessToken (config s') = access_token data"
    using c after(2) by simp
  ultimately show ?thesis
    by (simp add: new_api_requests_eq new_token_requests_eq authorization_api_request)
qed

section \<open>Facts about task lists\<close>













section \<open>The claims\<close>

subsection \<open>One refresh and one retry after a 401 answer\<close>

text \<open>
  C1, as amended. When the first attempt of a dispatch is answered 401, \<open>isRetry\<close> is
  false and the refresh credentials are all configured, the 401 branch makes exactly one
  refresh call and at most one retry follows, so that at most two requests in all reach
  the resource API; the retry, before it sends its request, may refresh once more when
  it finds the new credential stale. When moreover the refresh succeeds with a token
  that is not empty and lives longer than the 300 second margin, exactly one request
  goes to the token endpoint after the first attempt, exactly one retry is sent, the
  retry carries the token just stored, and exactly two requests reach the resource API.
\<close>

theorem one_refresh_and_one_retry_on_401:
  assumes "ensure_fresh s = (Inr u, s1)" and "accessToken (config s1) \<noteq> []"
    and "api_script s = (d, Responds r) # rest" and "resp_status r = 401"
    and "has_refresh_credentials (config s)"
    and "makeRequest ep m b False s = (res, s')"
  shows "(\<exists>retry. new_api_requests s s' = api_request s1 ep m b # retry \<and> length retry \<le> 1) \<and>
         length (new_api_requests s s') \<le> 2 \<and>
         (\<exists>more. new_token_requests s1 s' = token_request (config s1) # more \<and>
                 length more \<le> 1) \<and>
         (accounts_script s1 = (dt, Responds rt) # rest_t \<and> resp_ok rt \<and>
          resp_json rt = Inr data \<and> access_token data \<noteq> [] \<and> 300 < expires_in data \<longrightarrow>
            new_token_requests s1 s' = [token_request (config s1)] \<and>
            map authorization (new_api_requests s s') =
              [Some (''Zoho-oauthtoken '' @ accessToken (config s1)),
               Some (''Zoho-oauthtoken '' @ access_token data)] \<and>
            accessToken (config s') = access_token data \<and>
            length (new_api_requests s s') = 2)"
proof -
  obtain retry more where
    a: "api_requests (trace s') = api_requests (trace s) @ api_request s1 ep m b # retry"
    and lr: "length retry \<le> 1"
    and t: "token_requests (trace s') = token_requests (trace s1) @ token_request (config s1) # more"
    and lm: "length more \<le> 1"
    using makeRequest_401_requests [OF assms] by blast
  have na: "new_api_requests s s' = api_request s1 ep m b # retry"
    using a by (rule new_api_requests_eq)
  have nt: "new_token_requests s1 s' = token_request (config s1) # more"
    using t by (rule new_token_requests_eq)
  have p1: "\<exists>retry. new_api_requests s s' = api_request s1 ep m b # retry \<and> length retry \<le> 1"
    using na lr by blast
  have p2: "length (new_api_requests s s') \<le> 2" using na lr by simp
  have p3: "\<exists>more. new_token_requests s1 s' = token_request (config s1) # more \<and> length more \<le> 1"
    using nt lm by blast
  have p4: "new_token_requests s1 s' = [token_request (config s1)] \<and>
            map authorization (new_api_requests s s') =
              [Some (''Zoho-oauthtoken '' @ accessToken (config s1)),
               Some (''Zoho-oauthtoken '' @ access_token data)] \<and>
            accessToken (config s') = access_token data \<and>
            length (new_api_requests s s') = 2"
    if h: "accounts_script s1 = (dt, Responds rt) # rest_t \<and> resp_ok rt \<and>
          resp_json rt = Inr data \<and> access_token data \<noteq> [] \<and> 300 < expires_in data"
    using makeRequest_401_refreshed [OF assms(1-5) _ _ _ _ _ assms(6), of dt rt rest_t data] h
    by blast
  from p1 p2 p3 p4 show ?thesis by blast
qed

theorem one_refresh_and_one_retry_on_401_witness:
  "map authorization (new_api_requests
     (example_state (example_config ''A'') 5000 1000
        [(7, Responds (token_granted ''B'' 3600))]
        [(3, Responds (api_refused 401 ''token expired'')),
         (4, Responds (api_answers (JObj [])))])
     (snd (makeRequest ''/portals'' ''GET'' None False
        (example_state (example_config ''A'') 5000 1000
           [(7, Responds (token_granted ''B'' 3600))]
           [(3, Responds (api_refused 401 ''token expired'')),
            (4, Responds (api_answers (JObj [])))]))))
   = [Some ''Zoho-oauthtoken A'', Some ''Zoho-oauthtoken B'']"
proof -
  let ?s = "example_state (example_config ''A'') 5000 1000
        [(7, Responds (token_granted ''B'' 3600))]
        [(3, Responds (api_refused 401 ''token expired'')),
         (4, Responds (api_answers (JObj [])))]"
  obtain res s' where m: "makeRequest ''/portals'' ''GET'' None False ?s = (res, s')"
    by (cases "makeRequest ''/portals'' ''GET'' None False ?s")
  have h1: "ensure_fresh ?s = (Inr (), ?s)"
    by (simp add: ensure_fresh_def example_state_def)
  have h2: "accessToken (config ?s) \<noteq> []"
    by (simp add: example_state_def example_config_def)
  have h3: "api_script ?s = (3, Responds (api_refused 401 ''token expired''))
              # [(4, Responds (api_answers (JObj [])))]"
    by (simp add: example_state_def)
  have h4: "resp_status (api_refused 401 ''token expired'') = 401"
    by (simp add: api_refused_def)
  have h5: "has_refresh_credentials (config ?s)"
    by (simp add: example_state_def example_config_def has_refresh_credentials_def)
  have h6: "accounts_script ?s = (7, Responds (token_granted ''B'' 3600)) # []"
    by (simp add: example_state_def)
  have h7: "resp_ok (token_granted ''B'' 3600)"
    by (simp add: resp_ok_def token_granted_def)
  have h8: "resp_json (token_granted ''B'' 3600) = Inr \<lparr>access_token = ''B'', expires_in = 3600\<rparr>"
    by (simp add: token_granted_def)
  have h9: "access_token \<lparr>access_token = ''B'', expires_in = 3600\<rparr> \<noteq> []" by simp
  have h10: "300 < expires_in \<lparr>access_token = ''B'', expires_in = 3600\<rparr>" by simp
  from one_refresh_and_one_retry_on_401 [OF h1 h2 h3 h4 h5 m,
      of 7 "token_granted ''B'' 3600" "[]" "\<lparr>access_token = ''B'', expires_in = 3600\<rparr>"]
    h6 h7 h8 h9 h10
  have "map authorization (new_api_requests ?s s') =
          [Some (''Zoho-oauthtoken '' @ accessToken (config ?s)), Some (''Zoho-oauthtoken '' @ ''B'')]"
    by simp
  with m show ?thesis by (simp add: example_state_def example_config_def)
qed

text \<open>
  C1 as stated fails at two inputs with the first attempt answered 401 and the three
  credentials configured. When the token endpoint answers 400, the refresh fails and no
  retry is sent. When it answers 200 with an empty access token, the refresh succeeds,
  the retry stops at its check of the stored token, and again no retry is sent. In both
  the one request of the dispatch is the first attempt.
\<close>

theorem one_refresh_and_one_retry_on_401_counterexample:
  "has_refresh_credentials (config (example_state (example_config ''A'') 5000 1000
        [(7, Responds (token_refused 400 ''invalid_client''))]
        [(3, Responds (api_refused 401 ''token expired'')),
         (4, Responds (api_answers (JObj [])))])) \<and>
   length (new_api_requests
     (example_state (example_config ''A'') 5000 1000
        [(7, Responds (token_refused 400 ''invalid_client''))]
        [(3, Responds (api_refused 401 ''token expired'')),
         (4, Responds (api_answers (JObj [])))])
     (snd (makeRequest ''/portals'' ''GET'' None False
        (example_state (example_config ''A'') 5000 1000
           [(7, Responds (token_refused 400 ''invalid_client''))]
           [(3, Responds (api_refused 401 ''token expired'')),
            (4, Responds (api_answers (JObj [])))])))) = 1 \<and>
   length (new_api_requests
     (example_state (example_config ''A'') 5000 1000
        [(7, Responds (token_granted [] 3600))]
        [(3, Responds (api_refused 401 ''token expired'')),
         (4, Responds (api_answers (JObj [])))])
     (snd (makeRequest ''/portals'' ''GET'' None False
        (example_state (example_config ''A'') 5000 1000
           [(7, Responds (token_granted [] 3600))]
           [(3, Responds (api_refused 401 ''token expired'')),
            (4, Responds (api_answers (JObj [])))])))) = 1"
  by (simp add: makeRequest.simps ensure_fresh_def example_state_def example_config_def
      has_refresh_credentials_def fetch_api_def fetch_accounts_def api_refused_def
      api_answers_def token_refused_def token_granted_def resp_ok_def refreshAccessToken_def
      refresh_try_def console_error_def console_error_obj_def new_api_requests_def)

text \<open>
  Why the amended claim asks for a token that outlives the margin: a token granted for
  60 seconds is stale as soon as it is stored, so the retry refreshes once more before
  it sends its request.
\<close>

lemma short_lived_token_is_refreshed_again:
  "length (token_requests (trace (snd (makeRequest ''/portals'' ''GET'' None False
     (example_state (example_config ''A'') 5000 1000
        [(7, Responds (token_granted ''B'' 60)), (7, Responds (token_granted ''C'' 3600))]
        [(3, Responds (api_refused 401 ''token expired'')),
         (4, Responds (api_answers (JObj [])))]))))) = 2"
  by (simp add: makeRequest.simps ensure_fresh_def example_state_def example_config_def
      has_refresh_credentials_def fetch_api_def fetch_accounts_def api_refused_def
      api_answers_def token_granted_def resp_ok_def refreshAccessToken_def refresh_try_def
      console_error_def console_error_obj_def)

subsection \<open>A failing refresh at entry\<close>

text \<open>
  C2, as amended. A dispatch that finds the credential stale and whose refresh is
  attempted and fails (network error, status not 2xx, body not JSON) aborts on that
  failure: it is logged and thrown as an internal error, no request reaches the resource
  API, and the stored token and expiry stay as they were. Only a refresh that cannot be
  attempted, because a refresh credential is missing, is logged and passed over: the
  dispatch then sends its request with the stored token.
\<close>

theorem proactive_refresh_failure_aborts_dispatch:
  assumes "tokenExpiresAt s \<le> clock s"
    and "makeRequest ep m b isRetry s = (res, s')"
  shows "(has_refresh_credentials (config s) \<and> token_call_fails s \<longrightarrow>
            (\<exists>msg. res = Inl (McpError InternalError (''Failed to refresh access token: '' @ msg)) \<and>
                   ConsoleError (''Error refreshing access token: '' @ msg) \<in> set (trace s')) \<and>
            new_api_requests s s' = [] \<and>
            config s' = config s \<and> tokenExpiresAt s' = tokenExpiresAt s) \<and>
         (\<not> has_refresh_credentials (config s) \<and> accessToken (config s) \<noteq> [] \<longrightarrow>
            trace s' = trace s @
              [ConsoleError
                 ''Cannot refresh token: missing refresh token, client ID, or client secret'',
               ApiFetch (api_request s ep m b)])"
proof (rule conjI; rule impI)
  assume h: "has_refresh_credentials (config s) \<and> token_call_fails s"
  then obtain msg s1 where
    r: "refreshAccessToken s =
          (Inl (McpError InternalError (''Failed to refresh access token: '' @ msg)), s1)"
    and f: "config s1 = config s" "tokenExpiresAt s1 = tokenExpiresAt s"
      "api_requests (trace s1) = api_requests (trace s)"
      "ConsoleError (''Error refreshing access token: '' @ msg) \<in> set (trace s1)"
    using refreshAccessToken_failure [of s] by metis
  have "ensure_fresh s =
      (Inl (McpError InternalError (''Failed to refresh access token: '' @ msg)), s1)"
    using assms(1) r by (simp add: ensure_fresh_def)
  from ensure_fresh_throws [OF this, of ep m b isRetry] assms(2)
  have "res = Inl (McpError InternalError (''Failed to refresh access token: '' @ msg))"
    and "s' = s1" by simp_all
  with f show "(\<exists>msg. res = Inl (McpError InternalError (''Failed to refresh access token: '' @ msg)) \<and>
                   ConsoleError (''Error refreshing access token: '' @ msg) \<in> set (trace s')) \<and>
            new_api_requests s s' = [] \<and>
            config s' = config s \<and> tokenExpiresAt s' = tokenExpiresAt s"
    by (auto simp: new_api_requests_def)
next
  assume h: "\<not> has_refresh_credentials (config s) \<and> accessToken (config s) \<noteq> []"
  let ?s1 = "console_error
       ''Cannot refresh token: missing refresh token, client ID, or client secret'' s"
  have e: "ensure_fresh s = (Inr (), ?s1)"
    using assms(1) h by (simp add: ensure_fresh_def refreshAccessToken_no_credentials)
  have rq: "api_request ?s1 ep m b = api_request s ep m b"
    by (simp add: api_request_def console_error_def)
  obtain out s2 where f: "fetch_api (api_request s ep m b) ?s1 = (out, s2)"
    by (cases "fetch_api (api_request s ep m b) ?s1")
  have nc: "\<not> has_refresh_credentials (config s2)"
    using fetch_api_frame(1) [OF f] h by (simp add: console_error_def)
  have "s' = s2"
    using assms(2) e h rq f nc
    by (subst (asm) makeRequest.simps)
       (auto simp: console_error_def split: fetch_outcome.splits if_splits sum.splits)
  then show "trace s' = trace s @
              [ConsoleError
                 ''Cannot refresh token: missing refresh token, client ID, or client secret'',
               ApiFetch (api_request s ep m b)]"
    using fetch_api_frame(5) [OF f] by (simp add: console_error_def)
qed

theorem proactive_refresh_failure_aborts_dispatch_witness:
  "tokenExpiresAt (example_state (example_config ''A'') 0 1000
        [(7, Responds (token_refused 500 ''down''))]
        [(3, Responds (api_answers (JObj [])))]) \<le> 1000 \<and>
   new_api_requests
     (example_state (example_config ''A'') 0 1000
        [(7, Responds (token_refused 500 ''down''))]
        [(3, Responds (api_answers (JObj [])))])
     (snd (makeRequest ''/portals'' ''GET'' None False
        (example_state (example_config ''A'') 0 1000
           [(7, Responds (token_refused 500 ''down''))]
           [(3, Responds (api_answers (JObj [])))]))) = [] \<and>
   isl (fst (makeRequest ''/portals'' ''GET'' None False
        (example_state (example_config ''A'') 0 1000
           [(7, Responds (token_refused 500 ''down''))]
           [(3, Responds (api_answers (JObj [])))])))"
proof -
  let ?s = "example_state (example_config ''A'') 0 1000
        [(7, Responds (token_refused 500 ''down''))]
        [(3, Responds (api_answers (JObj [])))]"
  obtain res s' where m: "makeRequest ''/portals'' ''GET'' None False ?s = (res, s')"
    by (cases "makeRequest ''/portals'' ''GET'' None False ?s")
  have h1: "tokenExpiresAt ?s \<le> clock ?s" by (simp add: example_state_def)
  have h2: "has_refresh_credentials (config ?s) \<and> token_call_fails ?s"
    by (simp add: example_state_def example_config_def has_refresh_credentials_def
        token_call_fails_def token_refused_def resp_ok_def)
  from proactive_refresh_failure_aborts_dispatch [OF h1 m] h2
  have "isl res \<and> new_api_requests ?s s' = []" by auto
  with m show ?thesis by (simp add: example_state_def)
qed

text \<open>
  C2 as stated fails: the credential is stale, the token endpoint answers 500, and the
  dispatch ends with the refresh error without sending its request.
\<close>

theorem proactive_refresh_failure_is_swallowed_counterexample:
  "fst (makeRequest ''/portals'' ''GET'' None False
        (example_state (example_config ''A'') 0 1000
           [(7, Responds (token_refused 500 ''down''))]
           [(3, Responds (api_answers (JObj [])))]))
     = Inl (McpError InternalError
         ''Failed to refresh access token: Error: Failed to refresh token: 500 - down'') \<and>
   api_requests (trace (snd (makeRequest ''/portals'' ''GET'' None False
        (example_state (example_config ''A'') 0 1000
           [(7, Responds (token_refused 500 ''down''))]
           [(3, Responds (api_answers (JObj [])))])))) = []"
  by (simp add: makeRequest.simps ensure_fresh_def example_state_def example_config_def
      has_refresh_credentials_def fetch_accounts_def token_refused_def resp_ok_def
      refreshAccessToken_def refresh_try_def console_error_def show_nat.simps digit_char_def)

subsection \<open>A failing refresh after a 401 answer\<close>

text \<open>
  C3. When the first attempt of a dispatch is answered 401, the refresh credentials are
  all configured and the refresh that follows fails, the dispatch ends with the error of
  the original answer, its status 401 and its body text, and sends no second request.
\<close>

theorem refresh_failure_surfaces_original_401:
  assumes "ensure_fresh s = (Inr u, s1)" and "accessToken (config s1) \<noteq> []"
    and "api_script s = (d, Responds r) # rest" and "resp_status r = 401"
    and "has_refresh_credentials (config s)"
    and "token_call_fails s1"
    and "makeRequest ep m b False s = (res, s')"
  shows "res = Inl (McpError InternalError (''Zoho API error: 401 - '' @ resp_text r)) \<and>
         new_api_requests s s' = [api_request s1 ep m b] \<and>
         new_token_requests s1 s' = [token_request (config s1)]"
proof -
  let ?s2 = "s1\<lparr>clock := clock s1 + int d, api_script := rest,
                 trace := trace s1 @ [ApiFetch (api_request s1 ep m b),
                   ConsoleError ''Received 401 error, attempting token refresh...'']\<rparr>"
  have creds: "has_refresh_credentials (config ?s2)"
    using ensure_fresh_frame(4) [OF assms(1)] assms(5) by simp
  have fails: "token_call_fails ?s2"
    using assms(6) by (simp add: token_call_fails_def)
  obtain msg s3 where
    r: "refreshAccessToken ?s2 =
          (Inl (McpError InternalError (''Failed to refresh access token: '' @ msg)), s3)"
    and a: "api_requests (trace s3) = api_requests (trace ?s2)"
    and t: "token_requests (trace s3) = token_requests (trace ?s2) @ [token_request (config ?s2)]"
    using refreshAccessToken_failure [OF creds fails] by metis
  have "makeRequest ep m b False s =
      (Inl (api_error r), console_error_obj ''Token refresh failed:''
         (McpError InternalError (''Failed to refresh access token: '' @ msg)) s3)"
    using makeRequest_401 [OF assms(1-5), of ep m b] r by simp
  with assms(7) have res: "res = Inl (api_error r)"
    and s': "s' = console_error_obj ''Token refresh failed:''
         (McpError InternalError (''Failed to refresh access token: '' @ msg)) s3"
    by simp_all
  have "api_requests (trace s') = api_requests (trace s) @ [api_request s1 ep m b]"
    using s' a ensure_fresh_frame(3) [OF assms(1)]
    by (simp add: console_error_obj_def api_requests_append)
  moreover have "token_requests (trace s') = token_requests (trace s1) @ [token_request (config s1)]"
    using s' t by (simp add: console_error_obj_def token_requests_append)
  ultimately show ?thesis
    using res assms(4)
    by (simp add: api_error_def show_nat_401 new_api_requests_eq new_token_requests_eq)
qed

theorem refresh_failure_surfaces_original_401_witness:
  "fst (makeRequest ''/portals'' ''GET'' None False
     (example_state (example_config ''A'') 5000 1000
        [(7, Responds (token_refused 400 ''invalid_client''))]
        [(3, Responds (api_refused 401 ''token expired''))]))
   = Inl (McpError InternalError ''Zoho API error: 401 - token expired'')"
proof -
  let ?s = "example_state (example_config ''A'') 5000 1000
        [(7, Responds (token_refused 400 ''invalid_client''))]
        [(3, Responds (api_refused 401 ''token expired''))]"
  obtain res s' where m: "makeRequest ''/portals'' ''GET'' None False ?s = (res, s')"
    by (cases "makeRequest ''/portals'' ''GET'' None False ?s")
  have h1: "ensure_fresh ?s = (Inr (), ?s)"
    by (simp add: ensure_fresh_def example_state_def)
  have h2: "accessToken (config ?s) \<noteq> []"
    by (simp add: example_state_def example_config_def)
  have h3: "api_script ?s = (3, Responds (api_refused 401 ''token expired'')) # []"
    by (simp add: example_state_def)
  have h4: "resp_status (api_refused 401 ''token expired'') = 401"
    by (simp add: api_refused_def)
  have h5: "has_refresh_credentials (config ?s)"
    by (simp add: example_state_def example_config_def has_refresh_credentials_def)
  have h6: "token_call_fails ?s"
    by (simp add: token_call_fails_def example_state_def token_refused_def resp_ok_def)
  from refresh_failure_surfaces_original_401 [OF h1 h2 h3 h4 h5 h6 m]
  have "res = Inl (McpError InternalError (''Zoho API error: 401 - '' @ ''token expired''))"
    by (simp add: api_refused_def)
  with m show ?thesis by simp
qed

subsection \<open>A failing retry\<close>

text \<open>
  C4 at its failing input: the first attempt is answered 401, the refresh succeeds, the
  retry is sent with the new token and answered 500; the error that comes out is the one
  of the 401 answer, and the error of the retry is only written to the console.
\<close>

theorem retry_failure_is_reported_as_original_401:
  "fst (makeRequest ''/portals'' ''GET'' None False
     (example_state (example_config ''A'') 5000 1000
        [(7, Responds (token_granted ''B'' 3600))]
        [(3, Responds (api_refused 401 ''token expired'')),
         (4, Responds (api_refused 500 ''boom''))]))
   = Inl (McpError InternalError ''Zoho API error: 401 - token expired'') \<and>
   last (trace (snd (makeRequest ''/portals'' ''GET'' None False
     (example_state (example_config ''A'') 5000 1000
        [(7, Responds (token_granted ''B'' 3600))]
        [(3, Responds (api_refused 401 ''token expired'')),
         (4, Responds (api_refused 500 ''boom''))]))))
   = ConsoleErrorObj ''Token refresh failed:''
       (McpError InternalError ''Zoho API error: 500 - boom'')"
  by (simp add: makeRequest.simps ensure_fresh_def example_state_def example_config_def
      has_refresh_credentials_def fetch_api_def fetch_accounts_def api_refused_def
      token_granted_def resp_ok_def refreshAccessToken_def refresh_try_def console_error_def
      console_error_obj_def api_error_def show_nat.simps digit_char_def)

subsection \<open>No request with an empty token\<close>

text \<open>
  C5, as amended. A dispatch never sends a request with an empty token. When its first
  step returns (the credential is fresh, or the refresh is skipped or succeeds) and the
  stored token is then empty, the dispatch fails with the missing-credential error before
  any request to the resource API; this is so whenever the stored token is empty and a
  refresh credential is missing, and then no request at all is sent. When instead the
  refresh of the first step is attempted and fails, the dispatch fails with the error of
  that refresh, also before any request to the resource API.
\<close>

theorem no_request_with_empty_token:
  assumes "makeRequest ep m b isRetry s = (res, s')"
  shows "(\<forall>rq\<in>set (new_api_requests s s').
            \<exists>tok. tok \<noteq> [] \<and> authorization rq = Some (''Zoho-oauthtoken '' @ tok)) \<and>
         (\<forall>u s1. ensure_fresh s = (Inr u, s1) \<and> accessToken (config s1) = [] \<longrightarrow>
            res = Inl missing_token_error \<and> new_api_requests s s' = []) \<and>
         (\<not> has_refresh_credentials (config s) \<and> accessToken (config s) = [] \<longrightarrow>
            res = Inl missing_token_error \<and> new_api_requests s s' = [] \<and>
            new_token_requests s s' = []) \<and>
         (\<forall>e s1. ensure_fresh s = (Inl e, s1) \<longrightarrow>
            res = Inl e \<and> new_api_requests s s' = [])"
proof -
  have p1: "\<forall>rq\<in>set (new_api_requests s s').
            \<exists>tok. tok \<noteq> [] \<and> authorization rq = Some (''Zoho-oauthtoken '' @ tok)"
    using makeRequest_requests [OF assms] by (auto simp: new_api_requests_def)
  have p2: "res = Inl missing_token_error \<and> s' = s1 \<and> new_api_requests s s' = []"
    if "ensure_fresh s = (Inr u, s1)" and "accessToken (config s1) = []" for u s1
    using ensure_fresh_empty_token [OF that, of ep m b isRetry] assms
      ensure_fresh_frame(3) [OF that(1)]
    by (simp add: new_api_requests_def)
  have p3: "res = Inl missing_token_error \<and> new_api_requests s s' = [] \<and>
            new_token_requests s s' = []"
    if nc: "\<not> has_refresh_credentials (config s)" and em: "accessToken (config s) = []"
  proof -
    obtain s1 where e: "ensure_fresh s = (Inr (), s1)" and c: "config s1 = config s"
      and t: "token_requests (trace s1) = token_requests (trace s)"
      using ensure_fresh_no_credentials [OF nc] by blast
    have "accessToken (config s1) = []" using c em by simp
    from p2 [OF e this] have "res = Inl missing_token_error" and "s' = s1"
      and "new_api_requests s s' = []" by blast+
    moreover from \<open>s' = s1\<close> t have "new_token_requests s s' = []"
      by (simp add: new_token_requests_def)
    ultimately show ?thesis by blast
  qed
  have p4: "res = Inl e \<and> new_api_requests s s' = []"
    if "ensure_fresh s = (Inl e, s1)" for e s1
    using ensure_fresh_throws [OF that, of ep m b isRetry] assms
      ensure_fresh_frame(3) [OF that]
    by (simp add: new_api_requests_def)
  from p1 p2 p3 p4 show ?thesis by blast
qed

theorem no_request_with_empty_token_witness:
  "fst (makeRequest ''/portals'' ''GET'' None False
     (example_state ((example_config [])\<lparr>refreshToken := []\<rparr>) 0 1000
        [(7, Responds (token_granted ''B'' 3600))]
        [(3, Responds (api_answers (JObj [])))]))
   = Inl (McpError InvalidRequest
       ''Zoho access token not configured. Set ZOHO_ACCESS_TOKEN environment variable.'') \<and>
   trace (snd (makeRequest ''/portals'' ''GET'' None False
     (example_state ((example_config [])\<lparr>refreshToken := []\<rparr>) 0 1000
        [(7, Responds (token_granted ''B'' 3600))]
        [(3, Responds (api_answers (JObj [])))])))
   = [ConsoleError ''Cannot refresh token: missing refresh token, client ID, or client secret'']"
proof -
  let ?s = "example_state ((example_config [])\<lparr>refreshToken := []\<rparr>) 0 1000
        [(7, Responds (token_granted ''B'' 3600))]
        [(3, Responds (api_answers (JObj [])))]"
  let ?s1 = "console_error
       ''Cannot refresh token: missing refresh token, client ID, or client secret'' ?s"
  obtain res s' where m: "makeRequest ''/portals'' ''GET'' None False ?s = (res, s')"
    by (cases "makeRequest ''/portals'' ''GET'' None False ?s")
  have h1: "ensure_fresh ?s = (Inr (), ?s1)"
    by (simp add: ensure_fresh_def example_state_def example_config_def
        refreshAccessToken_def has_refresh_credentials_def)
  have h2: "accessToken (config ?s1) = []"
    by (simp add: console_error_def example_state_def example_config_def)
  from no_request_with_empty_token [OF m] h1 h2
  have "res = Inl missing_token_error" by blast
  moreover have "s' = ?s1"
    using ensure_fresh_empty_token [OF h1 h2, of "''/portals''" "''GET''" None False] m by simp
  ultimately show ?thesis
    using m by (simp add: missing_token_error_def console_error_def example_state_def)
qed

text \<open>
  C5 as stated fails when a refresh is attempted and fails: the stored token is empty,
  the credential is stale, the token endpoint answers 500; the stored token is still
  empty and no refresh has succeeded, but the error is the refresh error (an internal
  error), not the missing-credential error.
\<close>

theorem empty_token_gives_missing_credential_counterexample:
  "accessToken (config (snd (makeRequest ''/portals'' ''GET'' None False
        (example_state (example_config []) 0 1000
           [(7, Responds (token_refused 500 ''down''))]
           [(3, Responds (api_answers (JObj [])))])))) = [] \<and>
   fst (makeRequest ''/portals'' ''GET'' None False
        (example_state (example_config []) 0 1000
           [(7, Responds (token_refused 500 ''down''))]
           [(3, Responds (api_answers (JObj [])))]))
     = Inl (McpError InternalError
         ''Failed to refresh access token: Error: Failed to refresh token: 500 - down'') \<and>
   fst (makeRequest ''/portals'' ''GET'' None False
        (example_state (example_config []) 0 1000
           [(7, Responds (token_refused 500 ''down''))]
           [(3, Responds (api_answers (JObj [])))]))
     \<noteq> Inl missing_token_error"
  by (simp add: makeRequest.simps ensure_fresh_def example_state_def example_config_def
      has_refresh_credentials_def fetch_accounts_def token_refused_def resp_ok_def
      refreshAccessToken_def refresh_try_def console_error_def show_nat.simps digit_char_def
      missing_token_error_def)

subsection \<open>A 401 answer without refresh credentials\<close>

text \<open>
  C6. When the first attempt of a dispatch is answered 401 and the refresh token, the
  client id or the client secret is not configured, the dispatch sends no second request
  and no request to the token endpoint: it ends with the error of the 401 answer.
\<close>

theorem no_credentials_surfaces_401_at_once:
  assumes "\<not> has_refresh_credentials (config s)"
    and "accessToken (config s) \<noteq> []"
    and "api_script s = (d, Responds r) # rest" and "resp_status r = 401"
    and "makeRequest ep m b isRetry s = (res, s')"
  shows "res = Inl (McpError InternalError (''Zoho API error: 401 - '' @ resp_text r)) \<and>
         new_api_requests s s' = [api_request s ep m b] \<and>
         new_token_requests s s' = []"
proof -
  obtain s1 where e: "ensure_fresh s = (Inr (), s1)" and c: "config s1 = config s"
    and a: "api_script s1 = api_script s" and b: "baseUrl s1 = baseUrl s"
    and t: "api_requests (trace s1) = api_requests (trace s)"
           "token_requests (trace s1) = token_requests (trace s)"
    using ensure_fresh_no_credentials [OF assms(1)] by blast
  have rq: "api_request s1 ep m b = api_request s ep m b"
    using c b by (simp add: api_request_def)
  have "makeRequest ep m b isRetry s =
      (Inl (api_error r),
       s1\<lparr>clock := clock s1 + int d, api_script := rest,
          trace := trace s1 @ [ApiFetch (api_request s ep m b)]\<rparr>)"
    using e c a assms(1-4) rq
    by (subst makeRequest.simps) (simp add: fetch_api_def resp_ok_def)
  with assms(5) have "res = Inl (api_error r)"
    and "s' = s1\<lparr>clock := clock s1 + int d, api_script := rest,
          trace := trace s1 @ [ApiFetch (api_request s ep m b)]\<rparr>"
    by simp_all
  then show ?thesis
    using t assms(4)
    by (simp add: api_error_def show_nat_401 new_api_requests_def new_token_requests_def
        api_requests_append token_requests_append)
qed

theorem no_credentials_surfaces_401_at_once_witness:
  "fst (makeRequest ''/portals'' ''GET'' None False
     (example_state ((example_config ''A'')\<lparr>clientSecret := []\<rparr>) 0 1000
        [(7, Responds (token_granted ''B'' 3600))]
        [(3, Responds (api_refused 401 ''token expired'')),
         (3, Responds (api_answers (JObj [])))]))
   = Inl (McpError InternalError ''Zoho API error: 401 - token expired'')"
proof -
  let ?s = "example_state ((example_config ''A'')\<lparr>clientSecret := []\<rparr>) 0 1000
        [(7, Responds (token_granted ''B'' 3600))]
        [(3, Responds (api_refused 401 ''token expired'')),
         (3, Responds (api_answers (JObj [])))]"
  obtain res s' where m: "makeRequest ''/portals'' ''GET'' None False ?s = (res, s')"
    by (cases "makeRequest ''/portals'' ''GET'' None False ?s")
  have h1: "\<not> has_refresh_credentials (config ?s)"
    by (simp add: example_state_def example_config_def has_refresh_credentials_def)
  have h2: "accessToken (config ?s) \<noteq> []"
    by (simp add: example_state_def example_config_def)
  have h3: "api_script ?s = (3, Responds (api_refused 401 ''token expired''))
              # [(3, Responds (api_answers (JObj [])))]"
    by (simp add: example_state_def)
  have h4: "resp_status (api_refused 401 ''token expired'') = 401"
    by (simp add: api_refused_def)
  from no_credentials_surfaces_401_at_once [OF h1 h2 h3 h4 m]
  have "res = Inl (McpError InternalError (''Zoho API error: 401 - '' @ ''token expired''))"
    by (simp add: api_refused_def)
  with m show ?thesis by simp
qed

subsection \<open>What a successful refresh stores\<close>

text \<open>
  C7. A successful refresh (the token endpoint answers 2xx with \<open>access_token\<close> and
  \<open>expires_in\<close>) replaces the stored token and the stored expiry together, and the new
  expiry is the time of the answer plus \<open>expires_in - 300\<close> seconds. A dispatch that
  finds the credential stale and refreshes it this way sends the resource request with
  the new token, and when that request succeeds the stored expiry is still that of the
  refresh: with \<open>expires_in = 3600\<close>, 3300 seconds after the refresh, not 3600.
\<close>

theorem refresh_replaces_token_and_expiry:
  assumes "has_refresh_credentials (config s)"
    and "accounts_script s = (d, Responds r) # rest"
    and "resp_ok r" and "resp_json r = Inr data"
  shows "(case refreshAccessToken s of
            (res, s') \<Rightarrow>
              res = Inr () \<and>
              config s' = (config s)\<lparr>accessToken := access_token data\<rparr> \<and>
              clock s' = clock s + int d \<and>
              tokenExpiresAt s' = clock s' + (expires_in data - 300) * 1000) \<and>
         (tokenExpiresAt s \<le> clock s \<and> access_token data \<noteq> [] \<and>
          api_script s = (d2, Responds r2) # rest2 \<and> resp_ok r2 \<longrightarrow>
            (case makeRequest ep m b isRetry s of
               (res, s') \<Rightarrow>
                 map authorization (new_api_requests s s') =
                   [Some (''Zoho-oauthtoken '' @ access_token data)] \<and>
                 accessToken (config s') = access_token data \<and>
                 tokenExpiresAt s' = clock s + int d + (expires_in data - 300) * 1000))"
proof (intro conjI impI)
  show "case refreshAccessToken s of
            (res, s') \<Rightarrow>
              res = Inr () \<and>
              config s' = (config s)\<lparr>accessToken := access_token data\<rparr> \<and>
              clock s' = clock s + int d \<and>
              tokenExpiresAt s' = clock s' + (expires_in data - 300) * 1000"
    by (simp add: refreshAccessToken_success [OF assms])
next
  assume a: "tokenExpiresAt s \<le> clock s \<and> access_token data \<noteq> [] \<and>
          api_script s = (d2, Responds r2) # rest2 \<and> resp_ok r2"
  show "case makeRequest ep m b isRetry s of
               (res, s') \<Rightarrow>
                 map authorization (new_api_requests s s') =
                   [Some (''Zoho-oauthtoken '' @ access_token data)] \<and>
                 accessToken (config s') = access_token data \<and>
                 tokenExpiresAt s' = clock s + int d + (expires_in data - 300) * 1000"
    using a
    by (subst makeRequest.simps)
       (simp add: ensure_fresh_def refreshAccessToken_success [OF assms] fetch_api_def
          api_requests_append authorization_def api_request_def auth_header_def
          new_api_requests_def split: sum.splits)
qed

theorem refresh_replaces_token_and_expiry_witness:
  "has_refresh_credentials (config (example_state (example_config ''A'') 999000 1000000
       [(0, Responds (token_granted ''B'' 3600))] [(0, Responds (api_answers (JObj [])))])) \<and>
   (let s' = snd (makeRequest ''/portals'' ''GET'' None False
       (example_state (example_config ''A'') 999000 1000000
          [(0, Responds (token_granted ''B'' 3600))] [(0, Responds (api_answers (JObj [])))]))
    in map authorization (api_requests (trace s')) = [Some ''Zoho-oauthtoken B''] \<and>
       accessToken (config s') = ''B'' \<and>
       tokenExpiresAt s' = 1000000 + 3300 * 1000 \<and>
       tokenExpiresAt s' \<noteq> 1000000 + 3600 * 1000)"
proof -
  let ?s = "example_state (example_config ''A'') 999000 1000000
       [(0, Responds (token_granted ''B'' 3600))] [(0, Responds (api_answers (JObj [])))]"
  have h1: "has_refresh_credentials (config ?s)"
    by (simp add: example_state_def example_config_def has_refresh_credentials_def)
  have h2: "accounts_script ?s = (0, Responds (token_granted ''B'' 3600)) # []"
    by (simp add: example_state_def)
  have h3: "resp_ok (token_granted ''B'' 3600)"
    by (simp add: resp_ok_def token_granted_def)
  have h4: "resp_json (token_granted ''B'' 3600) = Inr \<lparr>access_token = ''B'', expires_in = 3600\<rparr>"
    by (simp add: token_granted_def)
  have h5: "tokenExpiresAt ?s \<le> clock ?s \<and>
      access_token \<lparr>access_token = ''B'', expires_in = 3600\<rparr> \<noteq> [] \<and>
      api_script ?s = (0, Responds (api_answers (JObj []))) # [] \<and>
      resp_ok (api_answers (JObj []))"
    by (simp add: example_state_def resp_ok_def api_answers_def)
  from refresh_replaces_token_and_expiry [OF h1 h2 h3 h4,
      of 0 "api_answers (JObj [])" "[]" "''/portals''" "''GET''" None False] h5
  have "case makeRequest ''/portals'' ''GET'' None False ?s of
     (res, s') \<Rightarrow>
       map authorization (new_api_requests ?s s') = [Some ''Zoho-oauthtoken B''] \<and>
       accessToken (config s') = ''B'' \<and>
       tokenExpiresAt s' = clock ?s + int 0 + (3600 - 300) * 1000"
    by simp
  then show ?thesis
    using h1
    by (simp add: new_api_requests_def example_state_def split: prod.splits)
qed

subsection \<open>The expiry stored at start\<close>

text \<open>
  C8 at its failing input: started with an access token in the environment, the
  constructor stores \<open>Date.now()\<close> plus 3600 seconds, the whole presumed life of the
  token with no margin taken off; a refresh at the same instant that is told the same
  life of 3600 seconds stores 300 seconds less.
\<close>

theorem constructor_stores_expiry_without_margin:
  "tokenExpiresAt (constructor [''ZOHO_ACCESS_TOKEN'' \<mapsto> ''A''] 1000000 [] [])
     = 1000000 + 3600 * 1000 \<and>
   tokenExpiresAt (snd (refreshAccessToken
       (example_state (example_config ''A'') 0 1000000
          [(0, Responds (token_granted ''B'' 3600))] [])))
     = 1000000 + (3600 - 300) * 1000"
  by (simp add: constructor_def env_or_def example_state_def example_config_def
      has_refresh_credentials_def fetch_accounts_def token_granted_def resp_ok_def
      refreshAccessToken_def refresh_try_def console_error_def)

subsection \<open>The retry of the binary fetch helper\<close>

text \<open>
  C9 at its failing inputs. First input: the three credentials are configured, the image
  request is answered 401 and the token endpoint answers 400. The helper ends with the
  error of the refresh, where the dispatcher, in the same state, ends with the error of
  the 401 answer. Second input: the refresh token is configured, the client id is not,
  and the image request is answered 401 twice. The helper skips the refresh and still
  sends the request a second time with the same token, where the dispatcher, in the same
  state, sends one request.
\<close>

theorem image_download_departs_from_dispatcher:
  "fst (downloadInlineImage ''https://projects.zoho.com/viewInlineAttachment/1''
        (example_state (example_config ''A'') 5000 1000
           [(7, Responds (token_refused 400 ''invalid_client''))]
           [(3, Responds (api_refused 401 ''token expired''))]))
     = Inl (McpError InternalError
         ''Failed to refresh access token: Error: Failed to refresh token: 400 - invalid_client'') \<and>
   fst (makeRequest ''/portals'' ''GET'' None False
        (example_state (example_config ''A'') 5000 1000
           [(7, Responds (token_refused 400 ''invalid_client''))]
           [(3, Responds (api_refused 401 ''token expired''))]))
     = Inl (McpError InternalError ''Zoho API error: 401 - token expired'') \<and>
   map authorization (api_requests (trace (snd
     (downloadInlineImage ''https://projects.zoho.com/viewInlineAttachment/1''
        (example_state ((example_config ''A'')\<lparr>clientId := []\<rparr>) 5000 1000
           [(7, Responds (token_granted ''B'' 3600))]
           [(3, Responds (api_refused 401 ''token expired'')),
            (4, Responds (api_refused 401 ''token expired''))])))))
     = [Some ''Zoho-oauthtoken A'', Some ''Zoho-oauthtoken A''] \<and>
   token_requests (trace (snd
     (downloadInlineImage ''https://projects.zoho.com/viewInlineAttachment/1''
        (example_state ((example_config ''A'')\<lparr>clientId := []\<rparr>) 5000 1000
           [(7, Responds (token_granted ''B'' 3600))]
           [(3, Responds (api_refused 401 ''token expired'')),
            (4, Responds (api_refused 401 ''token expired''))])))) = [] \<and>
   map authorization (api_requests (trace (snd
     (makeRequest ''/portals'' ''GET'' None False
        (example_state ((example_config ''A'')\<lparr>clientId := []\<rparr>) 5000 1000
           [(7, Responds (token_granted ''B'' 3600))]
           [(3, Responds (api_refused 401 ''token expired'')),
            (4, Responds (api_refused 401 ''token expired''))])))))
     = [Some ''Zoho-oauthtoken A'']"
  by (simp add: downloadInlineImage_def download_try_def makeRequest.simps ensure_fresh_def
      example_state_def example_config_def has_refresh_credentials_def fetch_api_def
      fetch_accounts_def api_refused_def token_refused_def resp_ok_def refreshAccessToken_def
      refresh_try_def console_error_def console_error_obj_def api_error_def
      authorization_def image_request_def api_request_def auth_header_def
      show_nat.simps digit_char_def)

subsection \<open>Filtering task lists by name\<close>




end
